theory Spec2Isabelle
  imports Complex_Main "HOL-Library.Product_Lexorder"
begin

section \<open>Numbers, rounding and Python's slices\<close>

text \<open>
  The analytics engine of \<^verbatim>\<open>ai_data_accessor.py\<close> works on SQLite rows. Integers are
  Python's unbounded integers (\<open>int\<close>). Prices and all derived quantities are Python
  floats and are modelled here as real numbers: comparisons, sums, quotients and the
  clamps are taken exactly, and \<^verbatim>\<open>round(x, n)\<close> is the rounding of the exact value to
  \<open>n\<close> decimals, halves going to the even neighbour.
\<close>

datatype py_error = ZeroDivisionError

definition round_half_even :: "real \<Rightarrow> int" where
  "round_half_even x =
     (let f = \<lfloor>x\<rfloor>; d = x - of_int f
      in if d < 1 / 2 then f
         else if 1 / 2 < d then f + 1
         else if even f then f else f + 1)"

definition py_round :: "real \<Rightarrow> nat \<Rightarrow> real" where
  "py_round x n = of_int (round_half_even (x * 10 ^ n)) / 10 ^ n"

definition py_div :: "real \<Rightarrow> real \<Rightarrow> py_error + real" where
  "py_div a b = (if b = 0 then Inl ZeroDivisionError else Inr (a / b))"


text \<open>
  \<^verbatim>\<open>sorted(xs, key=f, reverse=True)\<close> and \<^verbatim>\<open>xs.sort(key=f, reverse=True)\<close>: CPython
  reverses the list, sorts it stably in ascending order and reverses it again, so that
  elements with equal keys keep their original order.
\<close>

definition py_sorted_reverse :: "('a \<Rightarrow> 'k::linorder) \<Rightarrow> 'a list \<Rightarrow> 'a list" where
  "py_sorted_reverse f xs = rev (sort_key f (rev xs))"

text \<open>
  \<^verbatim>\<open>ORDER BY k DESC\<close> and \<^verbatim>\<open>LIMIT n\<close> of SQLite. SQL leaves the order of rows with
  equal keys open; the model keeps such rows in the order in which the scan produces them
  (the tables are lists in rowid order). A negative \<^verbatim>\<open>LIMIT\<close> means no limit.
\<close>

definition sql_order_by_desc :: "('a \<Rightarrow> 'k::linorder) \<Rightarrow> 'a list \<Rightarrow> 'a list" where
  "sql_order_by_desc f xs = rev (sort_key f (rev xs))"

definition sql_limit :: "int \<Rightarrow> 'a list \<Rightarrow> 'a list" where
  "sql_limit n xs = (if n < 0 then xs else take (nat n) xs)"

text \<open>
  \<^verbatim>\<open>s LIKE pat\<close> of SQLite: \<^verbatim>\<open>%\<close> stands for any run of characters, \<^verbatim>\<open>_\<close> for one
  character, and ASCII letters match without regard to case.
\<close>

definition ascii_lower :: "char \<Rightarrow> char" where
  "ascii_lower c =
     (let n = (of_char c :: nat) in if 65 \<le> n \<and> n \<le> 90 then char_of (n + 32) else c)"

fun sql_like :: "string \<Rightarrow> string \<Rightarrow> bool" where
  "sql_like [] s = (s = [])"
| "sql_like (c # p) [] = (c = CHR ''%'' \<and> sql_like p [])"
| "sql_like (c # p) (x # xs) =
     (if c = CHR ''%'' then sql_like p (x # xs) \<or> sql_like (c # p) xs
      else (c = CHR ''_'' \<or> ascii_lower c = ascii_lower x) \<and> sql_like p xs)"

text \<open>
  A \<^verbatim>\<open>defaultdict\<close> as an association list in insertion order: \<^verbatim>\<open>d[k] += v\<close> updates
  the entry of \<open>k\<close> in place, or appends \<open>k\<close> with the default \<open>0\<close> plus \<open>v\<close>.
\<close>

definition dd_add :: "'k \<Rightarrow> 'v::monoid_add \<Rightarrow> ('k \<times> 'v) list \<Rightarrow> ('k \<times> 'v) list" where
  "dd_add k v d =
     (if k \<in> fst ` set d
      then map (\<lambda>(k', c). if k' = k then (k', c + v) else (k', c)) d
      else d @ [(k, 0 + v)])"

definition dd_get :: "('k \<times> 'v::monoid_add) list \<Rightarrow> 'k \<Rightarrow> 'v" where
  "dd_get d k = (case map_of d k of None \<Rightarrow> 0 | Some v \<Rightarrow> v)"

section \<open>The store\<close>

text \<open>
  The three tables of \<^verbatim>\<open>database_setup.py\<close>, each a list of rows in rowid order. The
  id columns are the tables' primary keys. A timestamp is the \<^verbatim>\<open>datetime\<close> that
  \<^verbatim>\<open>datetime.fromisoformat\<close> reads from the stored text, as a number of microseconds.
\<close>

type_synonym datetime = int

record user_row =
  user_id :: int
  username :: string
  email :: string
  created_at :: datetime
  is_active :: bool

record product_row =
  product_id :: int
  product_name :: string
  category :: string
  price :: real
  stock_quantity :: int
  p_created_at :: datetime

record order_row =
  order_id :: int
  o_user_id :: int
  o_product_id :: int
  quantity :: int
  total_price :: real
  order_date :: datetime
  status :: string

record store =
  users :: "user_row list"
  products :: "product_row list"
  orders :: "order_row list"

section \<open>Customer segmentation\<close>

definition classify_customer :: "real \<Rightarrow> int \<Rightarrow> string" where
  "classify_customer total_spent total_orders =
     (if total_spent > 2000 \<and> total_orders > 10 then ''VIP Customer''
      else if total_spent > 1000 \<or> total_orders > 5 then ''Regular Customer''
      else if total_orders > 0 then ''Occasional Buyer''
      else ''New User'')"

section \<open>Purchase probability\<close>

definition calculate_purchase_probability :: "real \<Rightarrow> real \<Rightarrow> py_error + real" where
  "calculate_purchase_probability days_since avg_days =
     (if avg_days = 0 then Inr (1 / 10)
      else case py_div days_since avg_days of
             Inl e \<Rightarrow> Inl e
           | Inr ratio \<Rightarrow> Inr (py_round (min 1 (max (1 / 10) ratio)) 2))"

section \<open>Profiles\<close>

text \<open>A row of the order-history query: an order joined with its product.\<close>

record history_row =
  h_order_id :: int
  h_product_id :: int
  h_quantity :: int
  h_total_price :: real
  h_order_date :: datetime
  h_product_name :: string
  h_category :: string
  h_price :: real

record profile =
  user_info :: user_row
  total_orders :: int
  total_spent :: real
  avg_order_value :: real
  favorite_categories :: "string list"
  recent_orders :: "history_row list"
  customer_segment :: string

definition select_user :: "store \<Rightarrow> int \<Rightarrow> user_row list" where
  "select_user db uid = filter (\<lambda>u. user_id u = uid) (users db)"

definition get_user_by_id :: "store \<Rightarrow> int \<Rightarrow> user_row option" where
  "get_user_by_id db uid = (case select_user db uid of [] \<Rightarrow> None | u # _ \<Rightarrow> Some u)"

definition join_history :: "order_row \<Rightarrow> product_row \<Rightarrow> history_row" where
  "join_history r p =
     \<lparr>h_order_id = order_id r, h_product_id = o_product_id r, h_quantity = quantity r,
      h_total_price = total_price r, h_order_date = order_date r,
      h_product_name = product_name p, h_category = category p, h_price = price p\<rparr>"

definition select_history :: "store \<Rightarrow> int \<Rightarrow> history_row list" where
  "select_history db uid =
     sql_order_by_desc h_order_date
       [join_history r p. r \<leftarrow> orders db, o_user_id r = uid,
                          p \<leftarrow> products db, o_product_id r = product_id p]"

definition category_counts :: "history_row list \<Rightarrow> (string \<times> int) list" where
  "category_counts os = fold (\<lambda>order d. dd_add (h_category order) 1 d) os []"

definition category_spending :: "history_row list \<Rightarrow> (string \<times> real) list" where
  "category_spending os =
     fold (\<lambda>order d. dd_add (h_category order) (h_total_price order) d) os []"

text \<open>Lines 94 to 121 of \<^verbatim>\<open>build_user_profile\<close>: the profile of a user and their orders.\<close>

definition make_profile :: "user_row \<Rightarrow> history_row list \<Rightarrow> profile" where
  "make_profile user os =
     (let total_spent = sum_list (map h_total_price os);
          total_orders = int (length os);
          avg_order_value =
            (if total_orders > 0 then total_spent / of_int total_orders else 0);
          favorite_categories =
            py_sorted_reverse (\<lambda>x. (snd x, dd_get (category_spending os) (fst x)))
              (category_counts os)
      in \<lparr>user_info = user,
          total_orders = total_orders,
          total_spent = py_round total_spent 2,
          avg_order_value = py_round avg_order_value 2,
          favorite_categories = map fst (take 3 favorite_categories),
          recent_orders = take 5 os,
          customer_segment = classify_customer total_spent total_orders\<rparr>)"

definition build_user_profile :: "store \<Rightarrow> int \<Rightarrow> profile option" where
  "build_user_profile db uid =
     (case get_user_by_id db uid of
        None \<Rightarrow> None
      | Some user \<Rightarrow> Some (make_profile user (select_history db uid)))"

section \<open>Recommendations\<close>






section \<open>Similar users\<close>

record similar_row =
  s_user_id :: int
  s_username :: string
  common_categories :: int
  s_total_orders :: int

text \<open>
  The rows of one user in the join of users, orders and products that pass
  \<^verbatim>\<open>p.category IN (?, ?, ?)\<close>; a \<^verbatim>\<open>NULL\<close> parameter (\<open>None\<close>) matches no category.
\<close>

definition similar_join :: "store \<Rightarrow> string option list \<Rightarrow> user_row \<Rightarrow> product_row list" where
  "similar_join db params u =
     [p. r \<leftarrow> orders db, user_id u = o_user_id r,
         p \<leftarrow> products db, o_product_id r = product_id p, Some (category p) \<in> set params]"

definition similar_group :: "store \<Rightarrow> string option list \<Rightarrow> user_row \<Rightarrow> similar_row list" where
  "similar_group db params u =
     (let rows = similar_join db params u
      in if rows = [] then []
         else [\<lparr>s_user_id = user_id u, s_username = username u,
                common_categories = int (length (remdups (map category rows))),
                s_total_orders = int (length rows)\<rparr>])"

definition select_similar :: "store \<Rightarrow> int \<Rightarrow> string option list \<Rightarrow> int \<Rightarrow> similar_row list" where
  "select_similar db uid params limit =
     sql_limit limit
       (sql_order_by_desc (\<lambda>g. (common_categories g, s_total_orders g))
          (concat (map (similar_group db params)
             (filter (\<lambda>u. user_id u \<noteq> uid) (users db)))))"

text \<open>
  \<^verbatim>\<open>set(profile['favorite_categories'])\<close> is listed without duplicates; the order in
  which Python lists a set does not matter to \<^verbatim>\<open>IN\<close>.
\<close>

definition find_similar_users :: "store \<Rightarrow> int \<Rightarrow> int \<Rightarrow> similar_row list" where
  "find_similar_users db uid limit =
     (case build_user_profile db uid of
        None \<Rightarrow> []
      | Some profile \<Rightarrow>
          if favorite_categories profile = [] then []
          else
            let target_categories = remdups (favorite_categories profile);
                categories_params =
                  map Some target_categories @ replicate (3 - length target_categories) None
            in select_similar db uid (take 3 categories_params) limit)"

section \<open>Purchase prediction\<close>

record prediction =
  avg_days_between_orders :: real
  days_since_last_order :: int
  predicted_days_until_next_purchase :: real
  likely_category :: "string option"
  purchase_probability :: real

text \<open>\<^verbatim>\<open>(d1 - d2).days\<close>: the whole days of a difference of timestamps, rounded down.\<close>

definition timedelta_days :: "datetime \<Rightarrow> datetime \<Rightarrow> int" where
  "timedelta_days d1 d2 = (d1 - d2) div 86400000000"

fun time_diffs :: "history_row list \<Rightarrow> int list" where
  "time_diffs (a # b # rest) =
     \<bar>timedelta_days (h_order_date a) (h_order_date b)\<bar> # time_diffs (b # rest)"
| "time_diffs _ = []"

definition np_mean :: "int list \<Rightarrow> real" where
  "np_mean xs = of_int (sum_list xs) / of_nat (length xs)"

text \<open>The clock \<^verbatim>\<open>datetime.now()\<close> is the parameter \<open>now\<close>.\<close>

definition predict_next_purchase :: "store \<Rightarrow> datetime \<Rightarrow> int \<Rightarrow> py_error + prediction option" where
  "predict_next_purchase db now uid =
     (case build_user_profile db uid of
        None \<Rightarrow> Inr None
      | Some profile \<Rightarrow>
          if length (recent_orders profile) < 2 then Inr None
          else
            let os = recent_orders profile;
                diffs = time_diffs os;
                avg_days = (if diffs \<noteq> [] then np_mean diffs else 30);
                days_since_last = timedelta_days now (h_order_date (hd os));
                predicted_days_until_next = max 0 (avg_days - of_int days_since_last);
                recommended_category =
                  (case favorite_categories profile of [] \<Rightarrow> None | c # _ \<Rightarrow> Some c)
            in case calculate_purchase_probability (of_int days_since_last) avg_days of
                 Inl e \<Rightarrow> Inl e
               | Inr probability \<Rightarrow>
                   Inr (Some \<lparr>avg_days_between_orders = py_round avg_days 1,
                              days_since_last_order = days_since_last,
                              predicted_days_until_next_purchase =
                                py_round predicted_days_until_next 1,
                              likely_category = recommended_category,
                              purchase_probability = probability\<rparr>))"

section \<open>Search\<close>

text \<open>A search hit; \<^verbatim>\<open>relevance_score\<close> is a key only of personalised results.\<close>

record search_row =
  hit :: product_row
  popularity :: int
  relevance_score :: "real option"

definition search_hit :: "store \<Rightarrow> product_row \<Rightarrow> search_row" where
  "search_hit db p =
     \<lparr>hit = p,
      popularity = int (length (filter (\<lambda>r. o_product_id r = product_id p) (orders db))),
      relevance_score = None\<rparr>"

definition select_search :: "store \<Rightarrow> string \<Rightarrow> search_row list" where
  "select_search db search_pattern =
     sql_limit 20
       (sql_order_by_desc popularity
          (map (search_hit db)
             (filter (\<lambda>p. sql_like search_pattern (product_name p)
                          \<or> sql_like search_pattern (category p))
                (products db))))"

definition boost :: "string list \<Rightarrow> search_row \<Rightarrow> search_row" where
  "boost favorite_cats result =
     (if category (hit result) \<in> set favorite_cats
      then result\<lparr>relevance_score := Some (of_int (popularity result) * (3 / 2))\<rparr>
      else result\<lparr>relevance_score := Some (of_int (popularity result))\<rparr>)"

text \<open>
  The sort of the personalised branch reads \<^verbatim>\<open>x['relevance_score']\<close>, a key that every
  row has by then.
\<close>

definition relevance :: "search_row \<Rightarrow> real" where
  "relevance result = (case relevance_score result of Some s \<Rightarrow> s | None \<Rightarrow> 0)"

text \<open>\<^verbatim>\<open>if user_id:\<close> holds for an id that is neither \<^verbatim>\<open>None\<close> nor \<open>0\<close>.\<close>

definition get_smart_search_results :: "store \<Rightarrow> string \<Rightarrow> int option \<Rightarrow> search_row list" where
  "get_smart_search_results db search_term user_id_opt =
     (let search_pattern = CHR ''%'' # search_term @ [CHR ''%''];
          results = select_search db search_pattern;
          results' =
            (case user_id_opt of
               None \<Rightarrow> results
             | Some uid \<Rightarrow>
                 if uid = 0 then results
                 else
                   (case build_user_profile db uid of
                      None \<Rightarrow> results
                    | Some profile \<Rightarrow>
                        if favorite_categories profile = [] then results
                        else py_sorted_reverse relevance
                               (map (boost (favorite_categories profile)) results)))
      in take 10 results')"

section \<open>The accessor object\<close>

text \<open>
  The accessor holds the connection and one cursor. \<^verbatim>\<open>execute\<close> replaces the rows the
  cursor holds, \<^verbatim>\<open>fetchone\<close> and \<^verbatim>\<open>fetchall\<close> take rows from it. No method writes to
  the connection.
\<close>

datatype sql_row = User_Row user_row | History_Row history_row

datatype sql_query = Select_User int | Select_History int

record accessor =
  conn :: store
  cursor :: "sql_row list"

definition execute :: "sql_query \<Rightarrow> accessor \<Rightarrow> accessor" where
  "execute q a =
     (case q of
        Select_User uid \<Rightarrow> a\<lparr>cursor := map User_Row (select_user (conn a) uid)\<rparr>
      | Select_History uid \<Rightarrow> a\<lparr>cursor := map History_Row (select_history (conn a) uid)\<rparr>)"

definition fetchone :: "accessor \<Rightarrow> sql_row option \<times> accessor" where
  "fetchone a =
     (case cursor a of [] \<Rightarrow> (None, a) | r # rs \<Rightarrow> (Some r, a\<lparr>cursor := rs\<rparr>))"

definition fetchall :: "accessor \<Rightarrow> sql_row list \<times> accessor" where
  "fetchall a = (cursor a, a\<lparr>cursor := []\<rparr>)"

fun history_rows :: "sql_row list \<Rightarrow> history_row list" where
  "history_rows [] = []"
| "history_rows (History_Row h # rs) = h # history_rows rs"
| "history_rows (User_Row u # rs) = history_rows rs"

definition get_user_by_id_m :: "int \<Rightarrow> accessor \<Rightarrow> user_row option \<times> accessor" where
  "get_user_by_id_m uid a =
     (let (result, a') = fetchone (execute (Select_User uid) a)
      in (case result of Some (User_Row u) \<Rightarrow> Some u | _ \<Rightarrow> None, a'))"

definition build_user_profile_m :: "int \<Rightarrow> accessor \<Rightarrow> profile option \<times> accessor" where
  "build_user_profile_m uid a =
     (let (user, a1) = get_user_by_id_m uid a
      in case user of
           None \<Rightarrow> (None, a1)
         | Some u \<Rightarrow>
             let (rows, a2) = fetchall (execute (Select_History uid) a1)
             in (Some (make_profile u (history_rows rows)), a2))"


section \<open>Example stores\<close>

text \<open>Small stores on which the definitions are run. Day \<open>n\<close> is midnight of day \<open>n\<close>.\<close>

definition day :: "int \<Rightarrow> datetime" where
  "day n = n * 86400000000"

definition mk_user :: "int \<Rightarrow> string \<Rightarrow> user_row" where
  "mk_user i n = \<lparr>user_id = i, username = n, email = n @ ''@example.com'',
                   created_at = 0, is_active = True\<rparr>"

definition mk_product :: "int \<Rightarrow> string \<Rightarrow> string \<Rightarrow> real \<Rightarrow> int \<Rightarrow> product_row" where
  "mk_product i n c pr st = \<lparr>product_id = i, product_name = n, category = c, price = pr,
                             stock_quantity = st, p_created_at = 0\<rparr>"

definition mk_order :: "int \<Rightarrow> int \<Rightarrow> int \<Rightarrow> real \<Rightarrow> datetime \<Rightarrow> order_row" where
  "mk_order i u p t d = \<lparr>order_id = i, o_user_id = u, o_product_id = p, quantity = 1,
                         total_price = t, order_date = d, status = ''delivered''\<rparr>"

text \<open>
  Ann bought a laptop. Bob bought two laptops and nothing else; Cy bought one laptop and
  five novels; Dee bought nothing.
\<close>

definition similar_store :: store where
  "similar_store =
     \<lparr>users = [mk_user 1 ''ann'', mk_user 2 ''bob'', mk_user 3 ''cy'', mk_user 4 ''dee''],
      products = [mk_product 1 ''Laptop'' ''Electronics'' 900 5,
                  mk_product 2 ''Novel'' ''Books'' 10 5],
      orders = [mk_order 1 1 1 900 (day 1),
                mk_order 2 2 1 900 (day 2), mk_order 3 2 1 900 (day 3),
                mk_order 4 3 1 900 (day 4),
                mk_order 5 3 2 10 (day 5), mk_order 6 3 2 10 (day 6),
                mk_order 7 3 2 10 (day 7), mk_order 8 3 2 10 (day 8),
                mk_order 9 3 2 10 (day 9)]\<rparr>"


section \<open>Rounding\<close>

lemma round_half_even_ge: "of_int k \<le> x \<Longrightarrow> k \<le> round_half_even x"
proof -
  assume "of_int k \<le> x"
  then have "k \<le> \<lfloor>x\<rfloor>" by (simp add: le_floor_iff)
  then show ?thesis unfolding round_half_even_def Let_def by auto
qed

lemma round_half_even_le: "x \<le> of_int k \<Longrightarrow> round_half_even x \<le> k"
  unfolding round_half_even_def Let_def
  by (auto simp: floor_le_iff)

lemma round_half_even_near: "\<bar>of_int (round_half_even x) - x\<bar> \<le> 1 / 2"
  unfolding round_half_even_def Let_def
  by auto

lemma py_round_ge: "of_int k / 10 ^ n \<le> x \<Longrightarrow> of_int k / 10 ^ n \<le> py_round x n"
  unfolding py_round_def
  by (simp add: divide_le_cancel pos_divide_le_eq round_half_even_ge)

lemma py_round_le: "x \<le> of_int k / 10 ^ n \<Longrightarrow> py_round x n \<le> of_int k / 10 ^ n"
  unfolding py_round_def
  by (simp add: divide_le_cancel pos_le_divide_eq round_half_even_le)

lemma py_round_near: "\<bar>py_round x n - x\<bar> \<le> 1 / (2 * 10 ^ n)"
proof -
  have "\<bar>py_round x n - x\<bar> =
        \<bar>of_int (round_half_even (x * 10 ^ n)) - x * 10 ^ n\<bar> / 10 ^ n"
    unfolding py_round_def by (simp add: field_simps abs_divide)
  also have "\<dots> \<le> (1 / 2) / 10 ^ n"
    by (rule divide_right_mono) (use round_half_even_near [of "x * 10 ^ n"] in simp_all)
  finally show ?thesis by simp
qed

lemma py_round_zero: "py_round 0 n = 0"
  by (simp add: py_round_def round_half_even_def)

section \<open>Sorting, limits and slices\<close>

lemma set_sql_order_by_desc: "set (sql_order_by_desc f xs) = set xs"
  by (simp add: sql_order_by_desc_def)

lemma length_sql_order_by_desc: "length (sql_order_by_desc f xs) = length xs"
  by (simp add: sql_order_by_desc_def)

lemma sorted_rev_sort_key: "sorted_wrt (\<lambda>a b. f b \<le> f a) (rev (sort_key f (rev xs)))"
proof -
  have "sorted (map f (sort_key f (rev xs)))" by simp
  then have "sorted_wrt (\<lambda>a b. f a \<le> f b) (sort_key f (rev xs))"
    by (simp add: sorted_map)
  then show ?thesis by (simp add: sorted_wrt_rev)
qed

lemma stable_rev_sort_key:
  "filter (\<lambda>x. f x = k) (rev (sort_key f (rev xs))) = filter (\<lambda>x. f x = k) xs"
proof -
  have "filter (\<lambda>x. f x = k) (rev (sort_key f (rev xs)))
        = rev (filter (\<lambda>x. f x = k) (sort_key f (rev xs)))"
    by (simp add: rev_filter)
  also have "\<dots> = rev (filter (\<lambda>x. f x = k) (rev xs))"
    by (simp add: sort_key_stable)
  also have "\<dots> = filter (\<lambda>x. f x = k) xs"
    by (simp add: rev_filter)
  finally show ?thesis .
qed


lemma set_sql_limit: "set (sql_limit n xs) \<subseteq> set xs"
  by (auto simp: sql_limit_def dest: in_set_takeD)





lemma sorted_lex_of_stable:
  fixes f :: "'a \<Rightarrow> 'k::linorder"
  assumes "sorted_wrt (\<lambda>a b. f b \<le> f a) zs"
    and "\<And>k. sorted_wrt G (filter (\<lambda>x. f x = k) zs)"
  shows "sorted_wrt (\<lambda>a b. f b < f a \<or> (f a = f b \<and> G a b)) zs"
  using assms
proof (induction zs)
  case Nil
  then show ?case by simp
next
  case (Cons z zs)
  have tail: "sorted_wrt (\<lambda>a b. f b < f a \<or> (f a = f b \<and> G a b)) zs"
  proof (rule Cons.IH)
    show "sorted_wrt (\<lambda>a b. f b \<le> f a) zs" using Cons.prems(1) by simp
    fix k show "sorted_wrt G (filter (\<lambda>x. f x = k) zs)"
      using Cons.prems(2) [of k] by (cases "f z = k") simp_all
  qed
  have "f y < f z \<or> (f z = f y \<and> G z y)" if "y \<in> set zs" for y
  proof (cases "f y = f z")
    case True
    have "sorted_wrt G (z # filter (\<lambda>x. f x = f z) zs)"
      using Cons.prems(2) [of "f z"] by simp
    with that True show ?thesis by auto
  next
    case False
    with Cons.prems(1) that show ?thesis by (auto simp: less_le)
  qed
  with tail show ?case by simp
qed

lemma py_sorted_reverse_lex:
  fixes f :: "'a \<Rightarrow> 'k::linorder" and g :: "'a \<Rightarrow> 'j::linorder"
  assumes "sorted_wrt (\<lambda>a b. g b \<le> g a) ys"
  shows "sorted_wrt (\<lambda>a b. f b < f a \<or> (f a = f b \<and> g b \<le> g a)) (py_sorted_reverse f ys)"
proof (rule sorted_lex_of_stable)
  show "sorted_wrt (\<lambda>a b. f b \<le> f a) (py_sorted_reverse f ys)"
    unfolding py_sorted_reverse_def by (rule sorted_rev_sort_key)
  fix k
  show "sorted_wrt (\<lambda>a b. g b \<le> g a) (filter (\<lambda>x. f x = k) (py_sorted_reverse f ys))"
    unfolding py_sorted_reverse_def stable_rev_sort_key
    using assms by (rule sorted_wrt_filter)
qed

section \<open>Segmentation is the ordered rule set\<close>

text \<open>
  Claim C1. The segment is a function of the pair (total spent, order count) alone, read
  off an ordered rule set in which the first matching rule wins: the VIP label exactly when
  more than 2000 was spent in more than 10 orders; otherwise the Regular label exactly when
  more than 1000 was spent or more than 5 orders were placed; otherwise the Occasional
  label exactly when there is an order; otherwise the New label. At the boundary inputs
  \<open>(2001, 11)\<close>, \<open>(2000, 11)\<close>, \<open>(1001, 1)\<close>, \<open>(0, 1)\<close> and \<open>(0, 0)\<close> the labels are
  VIP, Regular, Regular, Occasional and New. The labels of the code are
  \<^verbatim>\<open>VIP Customer\<close>, \<^verbatim>\<open>Regular Customer\<close>, \<^verbatim>\<open>Occasional Buyer\<close> and \<^verbatim>\<open>New User\<close>;
  a profile's segment is this function of the sum of its orders' prices and their number.
\<close>

theorem classify_customer_ordered_rules:
  "((classify_customer s n = ''VIP Customer'') = (s > 2000 \<and> n > 10))
   \<and> ((classify_customer s n = ''Regular Customer'') =
        ((s \<le> 2000 \<or> n \<le> 10) \<and> (s > 1000 \<or> n > 5)))
   \<and> ((classify_customer s n = ''Occasional Buyer'') =
        ((s \<le> 2000 \<or> n \<le> 10) \<and> s \<le> 1000 \<and> n \<le> 5 \<and> n > 0))
   \<and> ((classify_customer s n = ''New User'') =
        ((s \<le> 2000 \<or> n \<le> 10) \<and> s \<le> 1000 \<and> n \<le> 5 \<and> n \<le> 0))
   \<and> classify_customer 2001 11 = ''VIP Customer''
   \<and> classify_customer 2000 11 = ''Regular Customer''
   \<and> classify_customer 1001 1 = ''Regular Customer''
   \<and> classify_customer 0 1 = ''Occasional Buyer''
   \<and> classify_customer 0 0 = ''New User''
   \<and> customer_segment (make_profile u os) =
         classify_customer (sum_list (map h_total_price os)) (int (length os))"
  by (auto simp: classify_customer_def make_profile_def Let_def)

section \<open>The purchase probability is total\<close>

text \<open>
  Claim C10. For every pair of inputs with a non-negative average gap the purchase
  probability is computed without an error, and lies between 0.1 and 1.0: an average gap
  of zero is answered by the explicit branch with 0.1, so the division is reached only
  with a non-zero divisor, where it succeeds.
\<close>

theorem calculate_purchase_probability_total:
  assumes "0 \<le> avg_days"
  shows "\<exists>p. calculate_purchase_probability days_since avg_days = Inr p
             \<and> 1 / 10 \<le> p \<and> p \<le> 1
             \<and> (avg_days = 0 \<longrightarrow> p = 1 / 10)
             \<and> (avg_days \<noteq> 0 \<longrightarrow>
                  py_div days_since avg_days = Inr (days_since / avg_days))"
proof (cases "avg_days = 0")
  case True
  then show ?thesis
    by (intro exI [of _ "1 / 10"]) (simp add: calculate_purchase_probability_def)
next
  case False
  define c where "c = min 1 (max (1 / 10) (days_since / avg_days))"
  have lo: "of_int 10 / 10 ^ 2 \<le> c" and hi: "c \<le> of_int 100 / 10 ^ 2"
    by (simp_all add: c_def)
  have "of_int 10 / 10 ^ 2 \<le> py_round c 2" and "py_round c 2 \<le> of_int 100 / 10 ^ 2"
    using py_round_ge [OF lo] py_round_le [OF hi] by blast+
  then have "1 / 10 \<le> py_round c 2" and "py_round c 2 \<le> 1"
    by simp_all
  with False show ?thesis
    by (simp add: calculate_purchase_probability_def py_div_def c_def)
qed

theorem calculate_purchase_probability_total_witness:
  "(0::real) \<le> 3 / 2
   \<and> (\<exists>p. calculate_purchase_probability 1 (3 / 2) = Inr p \<and> 1 / 10 \<le> p \<and> p \<le> 1)
   \<and> calculate_purchase_probability 1 (3 / 2) = Inr (67 / 100)
   \<and> calculate_purchase_probability 1 0 = Inr (1 / 10)"
proof -
  have h: "(0::real) \<le> 3 / 2" by simp
  have v: "calculate_purchase_probability 1 (3 / 2) = Inr (67 / 100)"
    by (simp add: calculate_purchase_probability_def py_div_def py_round_def
        round_half_even_def Let_def)
  have z: "calculate_purchase_probability 1 0 = Inr (1 / 10)"
    by (simp add: calculate_purchase_probability_def)
  from calculate_purchase_probability_total [OF h, of 1] h v z show ?thesis by blast
qed

section \<open>Evaluation on the example stores\<close>

lemmas ex_defs = day_def mk_user_def mk_product_def mk_order_def
lemmas profile_defs = build_user_profile_def get_user_by_id_def select_user_def
    make_profile_def select_history_def sql_order_by_desc_def join_history_def Let_def
    category_counts_def category_spending_def dd_add_def dd_get_def py_sorted_reverse_def

lemmas similar_defs = find_similar_users_def select_similar_def similar_group_def
  similar_join_def sql_limit_def


section \<open>Similar users\<close>

lemma similar_group_user: "r \<in> set (similar_group db params u) \<Longrightarrow> s_user_id r = user_id u"
  by (auto simp: similar_group_def Let_def split: if_splits)

lemma select_similar_user:
  "r \<in> set (select_similar db uid params limit) \<Longrightarrow>
   \<exists>u \<in> set (users db). user_id u \<noteq> uid \<and> r \<in> set (similar_group db params u)"
  using set_sql_limit [of limit]
  by (fastforce simp: select_similar_def set_sql_order_by_desc)






text \<open>
  Claim C8. For every user id and every limit, no record returned by
  \<^verbatim>\<open>find_similar_users\<close> carries the query user's id; and the result is empty when the
  query user has no profile or a profile without favourite categories.
\<close>

theorem find_similar_users_excludes_query_user:
  "(\<forall>r \<in> set (find_similar_users db uid limit). s_user_id r \<noteq> uid)
   \<and> (build_user_profile db uid = None \<longrightarrow> find_similar_users db uid limit = [])
   \<and> (\<forall>p. build_user_profile db uid = Some p \<and> favorite_categories p = []
          \<longrightarrow> find_similar_users db uid limit = [])"
proof (intro conjI ballI allI impI)
  fix r assume "r \<in> set (find_similar_users db uid limit)"
  then obtain params where "r \<in> set (select_similar db uid params limit)"
    by (auto simp: find_similar_users_def Let_def split: option.splits if_splits)
  then show "s_user_id r \<noteq> uid"
    by (auto dest!: select_similar_user dest: similar_group_user)
qed (auto simp: find_similar_users_def)

theorem find_similar_users_excludes_query_user_witness:
  "map s_user_id (find_similar_users similar_store 1 5) = [2, 3]
   \<and> 1 \<notin> s_user_id ` set (find_similar_users similar_store 1 5)
   \<and> build_user_profile similar_store 9 = None
   \<and> find_similar_users similar_store 9 5 = []
   \<and> (\<exists>p. build_user_profile similar_store 4 = Some p \<and> favorite_categories p = [])
   \<and> find_similar_users similar_store 4 5 = []"
proof -
  have a: "map s_user_id (find_similar_users similar_store 1 5) = [2, 3]"
    by (simp add: similar_store_def ex_defs profile_defs similar_defs)
  have b: "build_user_profile similar_store 9 = None"
    by (simp add: similar_store_def ex_defs profile_defs)
  have c: "\<exists>p. build_user_profile similar_store 4 = Some p \<and> favorite_categories p = []"
    by (simp add: similar_store_def ex_defs profile_defs)
  from find_similar_users_excludes_query_user [of similar_store 1 5]
  have d: "1 \<notin> s_user_id ` set (find_similar_users similar_store 1 5)" by auto
  from find_similar_users_excludes_query_user [of similar_store 9 5] b
  have e: "find_similar_users similar_store 9 5 = []" by blast
  from find_similar_users_excludes_query_user [of similar_store 4 5] c
  have f: "find_similar_users similar_store 4 5 = []" by blast
  from a b c d e f show ?thesis by blast
qed




section \<open>Recommendations\<close>













end
